theory Spec2Isabelle
  imports Complex_Main "HOL-Library.Sublist" "HOL-Library.AList" "HOL-Library.Product_Lexorder"
begin

section \<open>Strings\<close>

text \<open>
  Python strings are modelled as HOL strings, that is as lists of code points below 256.
  The helpers below are the string primitives of the source: \<^verbatim>\<open>str.lower\<close>,
  \<^verbatim>\<open>a in b\<close>, \<^verbatim>\<open>str.startswith\<close>, \<^verbatim>\<open>str.split()\<close>, \<^verbatim>\<open>" ".join\<close> and
  \<^verbatim>\<open>str(n)\<close> for a non-negative integer.
\<close>

definition ascii_lower_table :: "(char \<times> char) list" where
  "ascii_lower_table = zip ''ABCDEFGHIJKLMNOPQRSTUVWXYZ'' ''abcdefghijklmnopqrstuvwxyz''"

definition lower_char :: "char \<Rightarrow> char" where
  "lower_char c =
     (case map_of ascii_lower_table c of
        Some d \<Rightarrow> d
      | None \<Rightarrow>
          (let n = of_char c :: nat
           in if 192 \<le> n \<and> n \<le> 222 \<and> n \<noteq> 215 then char_of (n + 32) else c))"

definition lower :: "string \<Rightarrow> string" where
  "lower s = map lower_char s"

fun startswith :: "string \<Rightarrow> string \<Rightarrow> bool" where
  "startswith s [] = True"
| "startswith [] (p # ps) = False"
| "startswith (c # cs) (p # ps) = (c = p \<and> startswith cs ps)"

fun contains :: "string \<Rightarrow> string \<Rightarrow> bool" where
  "contains [] p = (p = [])"
| "contains (c # cs) p = (startswith (c # cs) p \<or> contains cs p)"

definition is_space :: "char \<Rightarrow> bool" where
  "is_space c =
     (let n = of_char c :: nat
      in (9 \<le> n \<and> n \<le> 13) \<or> (28 \<le> n \<and> n \<le> 32) \<or> n = 133 \<or> n = 160)"

function py_split :: "string \<Rightarrow> string list" where
  "py_split s =
     (case dropWhile is_space s of
        [] \<Rightarrow> []
      | c # cs \<Rightarrow> (c # takeWhile (\<lambda>x. \<not> is_space x) cs)
                  # py_split (dropWhile (\<lambda>x. \<not> is_space x) cs))"
  by pat_completeness auto
termination
proof (relation "measure length")
  show "wf (measure length)" by simp
next
  fix s :: string and c cs
  assume "dropWhile is_space s = c # cs"
  then have "length (c # cs) \<le> length s"
    by (metis length_dropWhile_le)
  moreover have "length (dropWhile (\<lambda>x. \<not> is_space x) cs) \<le> length cs"
    by (rule length_dropWhile_le)
  ultimately show "(dropWhile (\<lambda>x. \<not> is_space x) cs, s) \<in> measure length"
    by simp
qed

declare py_split.simps [simp del]

fun join_space :: "string list \<Rightarrow> string" where
  "join_space [] = []"
| "join_space [w] = w"
| "join_space (w # v # ws) = w @ CHR '' '' # join_space (v # ws)"

definition normalize_ws :: "string \<Rightarrow> string" where
  "normalize_ws s = join_space (py_split s)"

definition py_strip :: "string \<Rightarrow> string" where
  "py_strip s = rev (dropWhile is_space (rev (dropWhile is_space s)))"

definition digit_char :: "nat \<Rightarrow> char" where
  "digit_char d = ''0123456789'' ! d"

function str_nat :: "nat \<Rightarrow> string" where
  "str_nat n = (if n < 10 then [digit_char n] else str_nat (n div 10) @ [digit_char (n mod 10)])"
  by pat_completeness auto
termination
  by (relation "measure id") auto

declare str_nat.simps [simp del]

definition str_int :: "int \<Rightarrow> string" where
  "str_int i = (if i < 0 then CHR ''-'' # str_nat (nat (- i)) else str_nat (nat i))"

section \<open>Retry policy (agents/retry.py)\<close>

record RetryConfig =
  max_attempts :: int
  base_delay_ms :: int
  max_delay_ms :: int

definition get_delay_ms :: "RetryConfig \<Rightarrow> int \<Rightarrow> int" where
  "get_delay_ms c attempt =
     (if attempt \<le> 0 then 0
      else min (base_delay_ms c * 2 ^ nat (attempt - 1)) (max_delay_ms c))"

text \<open>
  The observable effects of a forwarding call: a call of the agent (one attempt), a sleep
  of so many milliseconds, an event yielded downstream.
\<close>

datatype 'e effect = Call nat | Sleep int | Yield 'e

definition wait_before_retry :: "RetryConfig \<Rightarrow> int \<Rightarrow> 'e effect list" where
  "wait_before_retry c attempt =
     (let delay_ms = get_delay_ms c attempt
      in if delay_ms > 0 then [Sleep delay_ms] else [])"

text \<open>
  An exception as \<^verbatim>\<open>is_retryable_error\<close> sees it: its text \<^verbatim>\<open>str(error)\<close> and its
  \<^verbatim>\<open>status_code\<close> attribute, \<open>None\<close> when the attribute is absent or holds \<^verbatim>\<open>None\<close>.
\<close>

record client_error =
  err_text :: string
  status_code :: "int option"

definition retry_terms :: "string list" where
  "retry_terms = [''timeout'', ''timed out'', ''connection'', ''connect'', ''unavailable'', ''network'']"

definition is_retryable_error :: "client_error \<Rightarrow> bool" where
  "is_retryable_error error =
     (let error_str = lower (err_text error)
      in if list_ex (\<lambda>t. contains error_str t) retry_terms then True
         else if contains error_str ''429'' then True
         else if contains error_str ''5''
                 \<and> list_ex (\<lambda>code. contains error_str code) [''500'', ''502'', ''503'', ''504'']
              then True
         else (case status_code error of
                 None \<Rightarrow> False
               | Some sc \<Rightarrow>
                   if sc = 429 \<or> (500 \<le> sc \<and> sc < 600) then True
                   else if 400 \<le> sc \<and> sc < 500 then False
                   else False))"

section \<open>Agents and events\<close>

datatype AgentProtocol = A2A | AG_UI

record AgentRoutingConfig =
  priority :: int
  threshold :: real
  examples :: "string list"

record AgentConfig =
  agent_id :: string
  name :: string
  handles :: "string list"
  url :: string
  protocol :: AgentProtocol
  routing :: "AgentRoutingConfig option"
  description :: string

text \<open>
  The AG-UI events the router builds itself, and one constructor for every other event
  (tool calls, state deltas, ...) that it passes through unchanged.
\<close>

datatype event =
    RunStarted string string "string option"
  | RunFinished string string
  | RunError string
  | TextMessageStart string string
  | TextMessageContent string string
  | TextMessageEnd string
  | OtherEvent string string

section \<open>Streaming proxy: forward_request (agents/proxy.py)\<close>

text \<open>
  One call of \<^verbatim>\<open>_forward_with_protocol\<close> yields some events and then either finishes,
  raises an \<^verbatim>\<open>AGUIClientError\<close> or \<^verbatim>\<open>A2AClientError\<close>, or raises another exception.
  The agent's behaviour is a function from the attempt number to that outcome.
\<close>

datatype attempt_end = Finished | ClientFailed client_error | OtherException string

type_synonym upstream = "nat \<Rightarrow> event list \<times> attempt_end"

record AgentProxyError =
  pe_message :: string
  pe_agent_id :: "string option"
  pe_agent_name :: "string option"
  pe_attempts :: nat
  pe_is_retryable :: bool

datatype loop_end = LoopReturn | LoopRaise string | LoopExit "client_error option" nat

datatype proxy_end = Returned | RaisedProxyError AgentProxyError | RaisedOther string

text \<open>
  The \<^verbatim>\<open>for attempt in range(max_attempts)\<close> loop; the first argument counts the
  iterations that are left.
\<close>

fun retry_loop ::
  "RetryConfig \<Rightarrow> upstream \<Rightarrow> nat \<Rightarrow> nat \<Rightarrow> client_error option \<Rightarrow> nat
     \<Rightarrow> event effect list \<times> loop_end" where
  "retry_loop cfg up 0 attempt last_error attempts = ([], LoopExit last_error attempts)"
| "retry_loop cfg up (Suc n) attempt last_error attempts =
     (let attempts' = attempt + 1;
          waited = (if attempt > 0 then wait_before_retry cfg (int attempt) else []);
          here = waited @ [Call attempt] @ map Yield (fst (up attempt))
      in case snd (up attempt) of
           Finished \<Rightarrow> (here, LoopReturn)
         | OtherException x \<Rightarrow> (here, LoopRaise x)
         | ClientFailed e \<Rightarrow>
             if \<not> is_retryable_error e then (here, LoopExit (Some e) attempts')
             else (let r = retry_loop cfg up n (attempt + 1) (Some e) attempts'
                   in (here @ fst r, snd r)))"

definition forward_request ::
  "RetryConfig \<Rightarrow> AgentConfig \<Rightarrow> upstream \<Rightarrow> event effect list \<times> proxy_end" where
  "forward_request cfg agent up =
     (let r = retry_loop cfg up (nat (max_attempts cfg)) 0 None 0
      in case snd r of
           LoopReturn \<Rightarrow> (fst r, Returned)
         | LoopRaise x \<Rightarrow> (fst r, RaisedOther x)
         | LoopExit last_error attempts \<Rightarrow>
             (let error_msg = ''Agent '' @ name agent @ '' failed after '' @ str_nat attempts
                    @ '' attempt(s): ''
                    @ (case last_error of None \<Rightarrow> ''None'' | Some e \<Rightarrow> err_text e)
              in (fst r @ [Yield (RunError error_msg)],
                  RaisedProxyError
                    \<lparr>pe_message = error_msg, pe_agent_id = Some (agent_id agent),
                     pe_agent_name = Some (name agent), pe_attempts = attempts,
                     pe_is_retryable =
                       (case last_error of None \<Rightarrow> False | Some e \<Rightarrow> is_retryable_error e)\<rparr>)))"

fun is_call :: "'e effect \<Rightarrow> bool" where
  "is_call (Call k) = True"
| "is_call _ = False"

fun is_yield :: "'e effect \<Rightarrow> bool" where
  "is_yield (Yield e) = True"
| "is_yield _ = False"

text \<open>The calls and sleeps of a trace, in order; the events yielded downstream, in order.\<close>

definition control :: "'e effect list \<Rightarrow> 'e effect list" where
  "control tr = filter (\<lambda>x. \<not> is_yield x) tr"

fun yielded :: "'e effect list \<Rightarrow> 'e list" where
  "yielded [] = []"
| "yielded (Yield e # tr) = e # yielded tr"
| "yielded (x # tr) = yielded tr"

text \<open>No attempt starts after an event has been yielded downstream.\<close>

definition no_call_after_yield :: "'e effect list \<Rightarrow> bool" where
  "no_call_after_yield tr = (\<not> list_ex is_call (dropWhile (\<lambda>x. \<not> is_yield x) tr))"



subsection \<open>Example inputs for the proxy\<close>

definition example_retry_config :: RetryConfig where
  "example_retry_config = \<lparr>max_attempts = 3, base_delay_ms = 500, max_delay_ms = 5000\<rparr>"

definition example_agui_agent :: AgentConfig where
  "example_agui_agent =
     \<lparr>agent_id = ''metrics-agent'', name = ''Metrics'', handles = [''metrics''],
      url = ''http://metrics:8080'', protocol = AG_UI, routing = None, description = ''''\<rparr>"

text \<open>An agent that answers 503 twice and then streams a reply.\<close>

definition upstream_503_twice :: upstream where
  "upstream_503_twice k =
     (if k < 2
      then ([], ClientFailed \<lparr>err_text = ''Agent returned HTTP 503: busy'', status_code = Some 503\<rparr>)
      else ([RunStarted ''t'' ''r'' None, RunFinished ''t'' ''r''], Finished))"

definition upstream_midstream_timeout :: upstream where
  "upstream_midstream_timeout k =
     (if k = 0
      then ([RunStarted ''t'' ''r0'' None, TextMessageStart ''m0'' ''assistant'',
             TextMessageContent ''m0'' ''Hel''],
            ClientFailed \<lparr>err_text = ''Request timed out: read timeout'', status_code = None\<rparr>)
      else ([RunStarted ''t'' ''r1'' None, TextMessageStart ''m1'' ''assistant'',
             TextMessageContent ''m1'' ''Hello'', TextMessageEnd ''m1'', RunFinished ''t'' ''r1''],
            Finished))"


section \<open>Session store (session/state.py, session/store.py)\<close>

text \<open>
  Timestamps are \<^verbatim>\<open>datetime\<close> values, counted here in microseconds (the resolution of
  \<^verbatim>\<open>datetime\<close>); every operation that reads the clock takes the reading \<open>now\<close> as an
  argument.
\<close>

record SessionState =
  ss_thread_id :: string
  ss_agent_id :: string
  ss_agent_handle :: string
  created_at :: int
  last_activity :: int

definition minutes :: "int \<Rightarrow> int" where
  "minutes m = m * 60000000"

definition is_expired :: "SessionState \<Rightarrow> int \<Rightarrow> int \<Rightarrow> bool" where
  "is_expired s timeout now = (let expiry_time = last_activity s + minutes timeout in now > expiry_time)"

record SessionStore =
  sessions :: "string \<rightharpoonup> SessionState"
  timeout_minutes :: int

definition store_get :: "SessionStore \<Rightarrow> string \<Rightarrow> int \<Rightarrow> SessionState option \<times> SessionStore" where
  "store_get st tid now =
     (case sessions st tid of
        None \<Rightarrow> (None, st)
      | Some session \<Rightarrow>
          if is_expired session (timeout_minutes st) now
          then (None, st\<lparr>sessions := (sessions st)(tid := None)\<rparr>)
          else (Some session, st))"

definition store_set ::
  "SessionStore \<Rightarrow> string \<Rightarrow> string \<Rightarrow> string \<Rightarrow> int \<Rightarrow> SessionState \<times> SessionStore" where
  "store_set st tid aid handle now =
     (let session = \<lparr>ss_thread_id = tid, ss_agent_id = aid, ss_agent_handle = handle,
                      created_at = now, last_activity = now\<rparr>
      in (session, st\<lparr>sessions := (sessions st)(tid \<mapsto> session)\<rparr>))"

definition store_touch :: "SessionStore \<Rightarrow> string \<Rightarrow> int \<Rightarrow> bool \<times> SessionStore" where
  "store_touch st tid now =
     (case sessions st tid of
        None \<Rightarrow> (False, st)
      | Some session \<Rightarrow>
          if is_expired session (timeout_minutes st) now
          then (False, st\<lparr>sessions := (sessions st)(tid := None)\<rparr>)
          else (True, st\<lparr>sessions := (sessions st)(tid \<mapsto> session\<lparr>last_activity := now\<rparr>)\<rparr>))"

definition store_delete :: "SessionStore \<Rightarrow> string \<Rightarrow> bool \<times> SessionStore" where
  "store_delete st tid =
     (if tid \<in> dom (sessions st)
      then (True, st\<lparr>sessions := (sessions st)(tid := None)\<rparr>)
      else (False, st))"

definition example_store :: SessionStore where
  "example_store =
     \<lparr>sessions = [''t1'' \<mapsto> \<lparr>ss_thread_id = ''t1'', ss_agent_id = ''metrics-agent'',
                              ss_agent_handle = ''metrics'', created_at = 0, last_activity = 1000\<rparr>],
      timeout_minutes = 30\<rparr>"

section \<open>Retry policy: results\<close>

lemma startswith_contains_single:
  "startswith s (c # p) \<Longrightarrow> contains s [c]"
  by (cases s) auto


lemma retry_loop_control:
  "\<exists>m\<le>n. (0 < n \<longrightarrow> 0 < m) \<and> control (fst (retry_loop cfg up n a le att)) =
     concat (map (\<lambda>k. (if k > 0 then wait_before_retry cfg (int k) else []) @ [Call k])
                 [a..<a + m])"
proof (induction n arbitrary: a le att)
  case 0
  then show ?case by (simp add: control_def)
next
  case (Suc n)
  show ?case
  proof (cases "snd (up a)")
    case Finished
    then show ?thesis
      by (intro exI[of _ 1]) (simp add: control_def Let_def wait_before_retry_def filter_map o_def)
  next
    case (OtherException x)
    then show ?thesis
      by (intro exI[of _ 1]) (simp add: control_def Let_def wait_before_retry_def filter_map o_def)
  next
    case (ClientFailed e)
    show ?thesis
    proof (cases "is_retryable_error e")
      case False
      with ClientFailed show ?thesis
        by (intro exI[of _ 1])
           (simp add: control_def Let_def wait_before_retry_def filter_map o_def)
    next
      case True
      from Suc.IH[of "a + 1" "Some e" "a + 1"] obtain m where m: "m \<le> n"
        "control (fst (retry_loop cfg up n (a + 1) (Some e) (a + 1))) =
           concat (map (\<lambda>k. (if k > 0 then wait_before_retry cfg (int k) else []) @ [Call k])
                       [a + 1..<a + 1 + m])"
        by blast
      have "[a..<a + Suc m] = a # [a + 1..<a + 1 + m]"
        by (simp add: upt_conv_Cons)
      with ClientFailed True m show ?thesis
        by (intro exI[of _ "Suc m"])
           (simp add: control_def Let_def wait_before_retry_def filter_map o_def)
    qed
  qed
qed

lemma forward_request_control:
  "control (fst (forward_request cfg agent up)) =
     control (fst (retry_loop cfg up (nat (max_attempts cfg)) 0 None 0))"
  by (simp add: forward_request_def Let_def control_def split: loop_end.splits)

text \<open>
  C5. For a retry configuration with \<open>max_attempts \<ge> 1\<close> the delay of the 0-indexed attempt
  \<open>k\<close> is 0 for \<open>k = 0\<close> and \<open>min (base_delay_ms * 2^(k-1)) max_delay_ms\<close> otherwise; a
  forwarded request makes attempts \<open>0, ..., n-1\<close> for some \<open>1 \<le> n \<le> max_attempts\<close>, and
  before every retry attempt \<open>k > 0\<close> it sleeps exactly the delay of \<open>k\<close> (a delay that is
  not positive is no sleep at all).
\<close>

theorem retry_delay_and_attempt_bound:
  assumes "1 \<le> max_attempts cfg"
  shows "(\<forall>k\<ge>0. get_delay_ms cfg k =
            (if k = 0 then 0
             else min (base_delay_ms cfg * 2 ^ nat (k - 1)) (max_delay_ms cfg)))
       \<and> (\<exists>n. 1 \<le> n \<and> int n \<le> max_attempts cfg
              \<and> control (fst (forward_request cfg agent up)) =
                  concat (map (\<lambda>k. (if k = 0 then []
                                     else if 0 < get_delay_ms cfg (int k)
                                          then [Sleep (get_delay_ms cfg (int k))] else [])
                                    @ [Call k])
                              [0..<n]))"
proof
  show "\<forall>k\<ge>0. get_delay_ms cfg k =
            (if k = 0 then 0
             else min (base_delay_ms cfg * 2 ^ nat (k - 1)) (max_delay_ms cfg))"
    by (simp add: get_delay_ms_def)
next
  from assms have pos: "0 < nat (max_attempts cfg)" by simp
  from retry_loop_control[of "nat (max_attempts cfg)" cfg up 0 None 0] pos
  obtain m where m: "m \<le> nat (max_attempts cfg)" "0 < m"
    "control (fst (retry_loop cfg up (nat (max_attempts cfg)) 0 None 0)) =
       concat (map (\<lambda>k. (if k > 0 then wait_before_retry cfg (int k) else []) @ [Call k])
                   [0..<0 + m])"
    by blast
  have same: "(\<lambda>k. (if k > 0 then wait_before_retry cfg (int k) else []) @ [Call k]) =
        (\<lambda>k. (if k = 0 then []
              else if 0 < get_delay_ms cfg (int k)
                   then [Sleep (get_delay_ms cfg (int k))] else []) @ [Call k :: event effect])"
    by (rule ext) (simp add: wait_before_retry_def Let_def)
  from m assms have "1 \<le> m \<and> int m \<le> max_attempts cfg" by simp
  with m(3) same forward_request_control[of cfg agent up]
  show "\<exists>n. 1 \<le> n \<and> int n \<le> max_attempts cfg
              \<and> control (fst (forward_request cfg agent up)) =
                  concat (map (\<lambda>k. (if k = 0 then []
                                     else if 0 < get_delay_ms cfg (int k)
                                          then [Sleep (get_delay_ms cfg (int k))] else [])
                                    @ [Call k])
                              [0..<n])"
    by (intro exI[of _ m]) simp
qed

text \<open>
  The theorem at the default delays with three attempts, on an agent that answers 503 twice
  and then streams: the attempts are 0, 1, 2, with sleeps of 500 ms and 1000 ms between.
\<close>

theorem retry_delay_and_attempt_bound_witness:
  "1 \<le> max_attempts example_retry_config
   \<and> get_delay_ms example_retry_config 2 = min (500 * 2 ^ nat (2 - 1)) 5000
   \<and> control (fst (forward_request example_retry_config example_agui_agent upstream_503_twice)) =
       [Call 0, Sleep 500, Call 1, Sleep 1000, Call 2]
   \<and> (\<exists>n. 1 \<le> n \<and> int n \<le> max_attempts example_retry_config
         \<and> control (fst (forward_request example_retry_config example_agui_agent upstream_503_twice)) =
             concat (map (\<lambda>k. (if k = 0 then []
                                else if 0 < get_delay_ms example_retry_config (int k)
                                     then [Sleep (get_delay_ms example_retry_config (int k))] else [])
                               @ [Call k])
                         [0..<n]))"
proof -
  have h: "1 \<le> max_attempts example_retry_config"
    by (simp add: example_retry_config_def)
  have d: "get_delay_ms example_retry_config 2 = min (500 * 2 ^ nat (2 - 1)) 5000"
    by (simp add: example_retry_config_def get_delay_ms_def)
  have c: "control (fst (forward_request example_retry_config example_agui_agent upstream_503_twice)) =
       [Call 0, Sleep 500, Call 1, Sleep 1000, Call 2]"
    by (simp add: forward_request_def example_retry_config_def upstream_503_twice_def
        numeral_3_eq_3 is_retryable_error_def retry_terms_def lower_def lower_char_def
        ascii_lower_table_def wait_before_retry_def get_delay_ms_def control_def)
  from retry_delay_and_attempt_bound[OF h, of example_agui_agent upstream_503_twice] h d c
  show ?thesis by blast
qed

section \<open>Error classification: results\<close>



section \<open>Retries and streaming: results\<close>

text \<open>
  C2. No retry attempt is started after an event of an earlier attempt has been yielded
  downstream. The retry loop of \<^verbatim>\<open>forward_request\<close> does not record whether an attempt
  has yielded: on an agent whose first attempt yields three events and then fails with a
  read timeout, it sleeps and starts attempt 1, and the client receives the events of both
  attempts. The theorem evaluates the code on that agent.
\<close>

theorem forward_request_retries_after_yield:
  "fst (forward_request example_retry_config example_agui_agent upstream_midstream_timeout) =
     [Call 0, Yield (RunStarted ''t'' ''r0'' None), Yield (TextMessageStart ''m0'' ''assistant''),
      Yield (TextMessageContent ''m0'' ''Hel''),
      Sleep 500,
      Call 1, Yield (RunStarted ''t'' ''r1'' None), Yield (TextMessageStart ''m1'' ''assistant''),
      Yield (TextMessageContent ''m1'' ''Hello''), Yield (TextMessageEnd ''m1''),
      Yield (RunFinished ''t'' ''r1'')]
   \<and> \<not> no_call_after_yield
         (fst (forward_request example_retry_config example_agui_agent upstream_midstream_timeout))"
  by (simp add: forward_request_def example_retry_config_def upstream_midstream_timeout_def
        numeral_3_eq_3 is_retryable_error_def retry_terms_def lower_def lower_char_def
        ascii_lower_table_def wait_before_retry_def get_delay_ms_def no_call_after_yield_def)


section \<open>Session store: results\<close>

text \<open>
  C8. \<^verbatim>\<open>get\<close> returns nothing for a thread exactly when the store holds no session for it
  (none was set, or it has been deleted since) or \<open>now - last_activity\<close> exceeds the
  timeout. The comparison is strict: probed exactly at \<open>last_activity + timeout\<close> the session
  is returned and the store is unchanged. A \<^verbatim>\<open>get\<close> that finds an expired session removes
  that entry, and no other, before it returns nothing.
\<close>

theorem session_get_ttl:
  "(fst (store_get st t now) = None \<longleftrightarrow>
      (sessions st t = None
       \<or> (\<exists>s. sessions st t = Some s \<and> now - last_activity s > minutes (timeout_minutes st))))
   \<and> (\<forall>s. sessions st t = Some s \<and> now = last_activity s + minutes (timeout_minutes st)
          \<longrightarrow> store_get st t now = (Some s, st))
   \<and> (\<forall>s. sessions st t = Some s \<and> now - last_activity s > minutes (timeout_minutes st)
          \<longrightarrow> store_get st t now = (None, st\<lparr>sessions := (sessions st)(t := None)\<rparr>))
   \<and> (\<forall>s. sessions st t = Some s \<and> now - last_activity s > minutes (timeout_minutes st)
          \<longrightarrow> sessions (snd (store_get st t now)) t = None
              \<and> (\<forall>u. u \<noteq> t \<longrightarrow> sessions (snd (store_get st t now)) u = sessions st u))"
  by (auto simp: store_get_def is_expired_def Let_def split: option.splits)

theorem session_get_ttl_witness:
  "fst (store_get example_store ''t1'' (1000 + minutes 30)) \<noteq> None
   \<and> fst (store_get example_store ''t1'' (1001 + minutes 30)) = None
   \<and> sessions (snd (store_get example_store ''t1'' (1001 + minutes 30))) ''t1'' = None
   \<and> fst (store_get example_store ''t2'' 0) = None"
proof -
  have s: "sessions example_store ''t1'' = Some \<lparr>ss_thread_id = ''t1'', ss_agent_id = ''metrics-agent'',
                              ss_agent_handle = ''metrics'', created_at = 0, last_activity = 1000\<rparr>"
    "sessions example_store ''t2'' = None" "timeout_minutes example_store = 30"
    by (simp_all add: example_store_def)
  from session_get_ttl[of example_store "''t1''" "1000 + minutes 30"]
       session_get_ttl[of example_store "''t1''" "1001 + minutes 30"]
       session_get_ttl[of example_store "''t2''" 0] s
  show ?thesis by (simp add: minutes_def)
qed

end
